theory Spec2Isabelle
  imports Main
begin

section \<open>The directive schematic: packages/schematics/angular/directive/index.ts\<close>

subsection \<open>JavaScript values of type string-or-undefined\<close>

text \<open>
  Optional schema fields (\<^verbatim>\<open>prefix?: string\<close> and the like) are \<open>string option\<close>,
  with \<open>None\<close> for \<^verbatim>\<open>undefined\<close>. A condition \<^verbatim>\<open>if (s)\<close> holds for a defined,
  non-empty string; a template literal prints \<^verbatim>\<open>undefined\<close> as the word itself.
\<close>

fun truthy :: "string option \<Rightarrow> bool" where
  "truthy None = False"
| "truthy (Some s) = (s \<noteq> [])"

fun interpolate :: "string option \<Rightarrow> string" where
  "interpolate None = ''undefined''"
| "interpolate (Some s) = s"

subsection \<open>The schema of the options\<close>

record options =
  name :: string
  prefix :: "string option"
  selector :: "string option"
  project :: "string option"
  path :: "string option"
  module :: "string option"
  skipTests :: bool
  flat :: bool

subsection \<open>strings.camelize\<close>

text \<open>
  Modelled from the spec: the upper-case form of a character, for \<^verbatim>\<open>strings.camelize\<close>
  below. Characters are ASCII here.
\<close>

definition toUpperCase :: "char \<Rightarrow> char" where
  "toUpperCase c =
     (case map_of (zip ''abcdefghijklmnopqrstuvwxyz'' ''ABCDEFGHIJKLMNOPQRSTUVWXYZ'') c of
        None \<Rightarrow> c | Some u \<Rightarrow> u)"

text \<open>Modelled from the spec: the lower-case form of a character, likewise.\<close>

definition toLowerCase :: "char \<Rightarrow> char" where
  "toLowerCase c =
     (case map_of (zip ''ABCDEFGHIJKLMNOPQRSTUVWXYZ'' ''abcdefghijklmnopqrstuvwxyz'') c of
        None \<Rightarrow> c | Some l \<Rightarrow> l)"

text \<open>
  Modelled from the spec: the separators of words that the camel form removes: dash,
  underscore, dot and white space.
\<close>

definition isSeparator :: "char \<Rightarrow> bool" where
  "isSeparator c = (c \<in> set ''-_. '' \<or> c \<in> {CHR 0x09, CHR 0x0A, CHR 0x0B, CHR 0x0C, CHR 0x0D})"

text \<open>
  Modelled from the spec: one pass over the characters; \<open>pending\<close> says that a run of
  separators has just been dropped, so that the next character goes to upper case.
\<close>

fun camelizeFrom :: "bool \<Rightarrow> string \<Rightarrow> string" where
  "camelizeFrom pending [] = []"
| "camelizeFrom pending (c # cs) =
     (if isSeparator c then camelizeFrom True cs
      else (if pending then toUpperCase c else c) # camelizeFrom False cs)"

text \<open>
  Modelled from the spec: \<^verbatim>\<open>strings.camelize\<close> is imported from
  \<^verbatim>\<open>@angular-devkit/schematics\<close> and is not part of index.ts. The spec (4.1) says the
  output of the selector builder is case-normalised to camel form: every run of separators
  is dropped and the character after it is put in upper case, and a leading upper-case letter
  is put in lower case.
\<close>

definition strings_camelize :: "string \<Rightarrow> string" where
  "strings_camelize str =
     (case camelizeFrom False str of
        [] \<Rightarrow> []
      | c # cs \<Rightarrow> toLowerCase c # cs)"

subsection \<open>Errors, the virtual tree, changes\<close>

text \<open>
  Every \<^verbatim>\<open>throw\<close> of the file is a \<open>SchematicsException\<close> with its message. Reading a
  property of \<^verbatim>\<open>undefined\<close> is the \<open>TypeError\<close> of the JavaScript runtime.
  \<open>FileDoesNotExist\<close> and \<open>IndexOutOfBound\<close> are the refusals of the update recorder.
\<close>

datatype error =
    SchematicsException string
  | TypeError
  | FileDoesNotExist string
  | IndexOutOfBound nat

type_synonym tree = "string \<rightharpoonup> string"

type_synonym rule = "tree \<Rightarrow> error option \<times> tree"

record insert_change =
  change_path :: string
  pos :: nat
  toAdd :: string

definition andThen :: "error + 'a \<Rightarrow> ('a \<Rightarrow> error + 'b) \<Rightarrow> error + 'b" where
  "andThen r k = (case r of Inl e \<Rightarrow> Inl e | Inr v \<Rightarrow> k v)"

subsection \<open>Syntax nodes and values of type any\<close>

text \<open>
  The nodes of the TypeScript syntax tree that index.ts looks at. The only position it reads
  is \<^verbatim>\<open>elements.end\<close> of an array literal, kept with the element list
  (\<^verbatim>\<open>elements.pos\<close> beside it); every other kind of node is \<open>OtherNode\<close>.
\<close>

datatype node =
    Identifier string
  | StringLiteral string
  | ArrayLiteralExpression "node list" nat nat
  | ObjectLiteralExpression "node list"
  | PropertyAssignment node node
  | ShorthandPropertyAssignment node
  | CallExpression node "node list"
  | OtherNode

text \<open>
  \<^verbatim>\<open>metadataNode\<close> is declared \<^verbatim>\<open>any\<close>, so the compiler does not check line 64,
  which runs with JavaScript's rules: an index or a property that an object does not have reads as
  \<^verbatim>\<open>undefined\<close>, and reading anything of \<^verbatim>\<open>undefined\<close> throws. A syntax node is an
  object with named fields only; it has no element \<^verbatim>\<open>0\<close>.
\<close>

datatype jsval = Undefined | NodeVal node | NodeArrayVal "node list"

fun elementAccess :: "jsval \<Rightarrow> nat \<Rightarrow> error + jsval" where
  "elementAccess Undefined i = Inl TypeError"
| "elementAccess (NodeVal n) i = Inr Undefined"
| "elementAccess (NodeArrayVal ns) i = Inr (if i < length ns then NodeVal (ns ! i) else Undefined)"

fun getArguments :: "jsval \<Rightarrow> error + jsval" where
  "getArguments Undefined = Inl TypeError"
| "getArguments (NodeVal (CallExpression expression arguments)) = Inr (NodeArrayVal arguments)"
| "getArguments (NodeVal n) = Inr Undefined"
| "getArguments (NodeArrayVal ns) = Inr Undefined"

fun getProperties :: "node \<Rightarrow> error + node list" where
  "getProperties (ObjectLiteralExpression properties) = Inr properties"
| "getProperties n = Inl TypeError"

fun isObjectLiteralExpression :: "node \<Rightarrow> bool" where
  "isObjectLiteralExpression (ObjectLiteralExpression properties) = True"
| "isObjectLiteralExpression n = False"

fun isIdentifier :: "node \<Rightarrow> bool" where
  "isIdentifier (Identifier text) = True"
| "isIdentifier n = False"

text \<open>Line 56, the predicate of \<^verbatim>\<open>find\<close>.\<close>

fun isNonEmptyObjectLiteral :: "node \<Rightarrow> bool" where
  "isNonEmptyObjectLiteral (ObjectLiteralExpression properties) = (0 < length properties)"
| "isNonEmptyObjectLiteral n = False"

text \<open>Line 65: \<^verbatim>\<open>!objectLiteral || !ts.isObjectLiteralExpression(objectLiteral)\<close>.\<close>

fun isInvalidContent :: "jsval \<Rightarrow> bool" where
  "isInvalidContent Undefined = True"
| "isInvalidContent (NodeVal n) = (\<not> isObjectLiteralExpression n)"
| "isInvalidContent (NodeArrayVal ns) = True"

text \<open>Line 71, the predicate of \<^verbatim>\<open>filter\<close>, and line 72, the predicate of \<^verbatim>\<open>find\<close>.\<close>

fun isIdentifierNamedAssignment :: "node \<Rightarrow> bool" where
  "isIdentifierNamedAssignment (PropertyAssignment propertyName initializer) = isIdentifier propertyName"
| "isIdentifierNamedAssignment n = False"

fun isNamed :: "string \<Rightarrow> node \<Rightarrow> bool" where
  "isNamed key (PropertyAssignment (Identifier text) initializer) = (text = key)"
| "isNamed key n = False"

subsection \<open>The collaborators\<close>

text \<open>
  Everything index.ts imports is a parameter of the model, gathered in one record: the
  workspace reader, the path and name utilities, the selector validation, the TypeScript
  parser, the decorator locator of ast-utils, the module utilities and the templating.
  \<open>'src\<close> is whatever the parser returns; index.ts only hands it to the locator.
  A collaborator that can throw returns \<open>error + _\<close> or \<open>error option\<close>.
\<close>

record project_definition =
  project_prefix :: "string option"

record location =
  parsed_name :: string
  parsed_path :: string

record 'src collaborators =
  getWorkspace :: "tree \<Rightarrow> error + (string \<rightharpoonup> project_definition)"
  buildDefaultPath :: "project_definition \<Rightarrow> string"
  findModuleFromOptions :: "tree \<Rightarrow> options \<Rightarrow> error + string option"
  parseName :: "string \<Rightarrow> string \<Rightarrow> location"
  validateHtmlSelector :: "string \<Rightarrow> error option"
  camelize :: "string \<Rightarrow> string"
  createSourceFile :: "string \<Rightarrow> string \<Rightarrow> 'src"
  getDecoratorMetadata :: "'src \<Rightarrow> string \<Rightarrow> string \<Rightarrow> node list"
  getAppModulePath :: "tree \<Rightarrow> string option \<Rightarrow> error + string"
  addDeclarationToNgModule :: "options \<Rightarrow> rule"
  mergeWithTemplates :: "options \<Rightarrow> string \<Rightarrow> rule"

subsection \<open>buildSelector\<close>

text \<open>Lines 34 to 43.\<close>

definition buildSelector :: "'src collaborators \<Rightarrow> options \<Rightarrow> string \<Rightarrow> string" where
  "buildSelector c options projectPrefix =
     camelize c
       (if truthy (prefix options) then interpolate (prefix options) @ ''-'' @ name options
        else if prefix options = None \<and> projectPrefix \<noteq> [] then projectPrefix @ ''-'' @ name options
        else name options)"

subsection \<open>addDirectiveToComponentDecorator\<close>

text \<open>Lines 55 and 56: the first candidate of the locator that passes the predicate.\<close>

definition locateMetadataNode :: "'src collaborators \<Rightarrow> 'src \<Rightarrow> node option" where
  "locateMetadataNode c source =
     find isNonEmptyObjectLiteral (getDecoratorMetadata c source ''Component'' ''@angular/core'')"

text \<open>Line 64: \<^verbatim>\<open>metadataNode[0].arguments[0]\<close>.\<close>

definition firstArgumentOfFirst :: "jsval \<Rightarrow> error + jsval" where
  "firstArgumentOfFirst metadataNode =
     andThen (elementAccess metadataNode 0) (\<lambda>first.
     andThen (getArguments first) (\<lambda>arguments.
     elementAccess arguments 0))"

text \<open>Lines 70 to 72.\<close>

definition findImportsProperty :: "node list \<Rightarrow> node option" where
  "findImportsProperty properties =
     find (isNamed ''imports'') (filter isIdentifierNamedAssignment properties)"

text \<open>Lines 75 to 81: the end of the element list, or the exception.\<close>

fun insertPositionOf :: "string \<Rightarrow> node option \<Rightarrow> error + nat" where
  "insertPositionOf componentPath
       (Some (PropertyAssignment propertyName (ArrayLiteralExpression elements elements_pos elements_end))) =
     Inr elements_end"
| "insertPositionOf componentPath importsProperty =
     Inl (SchematicsException
       (''Property 'imports' not found in the decorator @Component in '' @ componentPath @ ''.''))"

text \<open>Lines 45 to 85. The function reads the tree and never writes it.\<close>

definition addDirectiveToComponentDecorator ::
  "'src collaborators \<Rightarrow> tree \<Rightarrow> string \<Rightarrow> string \<Rightarrow> string \<Rightarrow> error + insert_change list" where
  "addDirectiveToComponentDecorator c tree classifiedName directivePath componentPath =
     (case tree componentPath of
        None \<Rightarrow> Inl (SchematicsException (''Component file '' @ componentPath @ '' not found.''))
      | Some sourceText \<Rightarrow>
          (case locateMetadataNode c (createSourceFile c componentPath sourceText) of
             None \<Rightarrow>
               Inl (SchematicsException (''Decorator @Component not found in '' @ componentPath @ ''.''))
           | Some metadataNode \<Rightarrow>
               andThen (firstArgumentOfFirst (NodeVal metadataNode)) (\<lambda>objectLiteral.
               if isInvalidContent objectLiteral
               then Inl (SchematicsException
                      (''Invalid @Component decorator content found in file '' @ componentPath @ ''.''))
               else
                 andThen (getProperties metadataNode) (\<lambda>properties.
                 andThen (insertPositionOf componentPath (findImportsProperty properties)) (\<lambda>insertPosition.
                 Inr [\<lparr>change_path = componentPath, pos = insertPosition,
                       toAdd = ''['' @ classifiedName @ '']''\<rparr>])))))"

subsection \<open>The update recorder\<close>

text \<open>
  Modelled from the spec: \<^verbatim>\<open>beginUpdate\<close>, \<^verbatim>\<open>insertLeft\<close> and
  \<^verbatim>\<open>commitUpdate\<close> belong to the tree of \<^verbatim>\<open>@angular-devkit/schematics\<close>, not to
  index.ts. By the spec (4.5, 4.6, 6) a recorder is an append-only list of insertions for one
  existing file, and the commit reads the original content once and puts every queued text
  at its recorded offset, the offsets being those of the original text. Texts queued at the
  same offset keep the order in which they were queued.
\<close>

record update_recorder =
  recorder_path :: string
  original :: string
  insertions :: "(nat \<times> string) list"

text \<open>
  Modelled from the spec: \<^verbatim>\<open>beginUpdate\<close> opens a recorder on an existing file (spec 6)
  and holds its original content.
\<close>

definition beginUpdate :: "tree \<Rightarrow> string \<Rightarrow> error + update_recorder" where
  "beginUpdate tree file =
     (case tree file of
        None \<Rightarrow> Inl (FileDoesNotExist file)
      | Some content \<Rightarrow> Inr \<lparr>recorder_path = file, original = content, insertions = []\<rparr>)"

text \<open>
  Modelled from the spec: \<^verbatim>\<open>insertLeft\<close> appends one insertion to the log (spec 4.5); an
  offset beyond the content is refused.
\<close>

definition insertLeft :: "update_recorder \<Rightarrow> nat \<Rightarrow> string \<Rightarrow> error + update_recorder" where
  "insertLeft recorder index content =
     (if length (original recorder) < index then Inl (IndexOutOfBound index)
      else Inr (recorder\<lparr>insertions := insertions recorder @ [(index, content)]\<rparr>))"

text \<open>Modelled from the spec: the texts queued at one offset, in the order of the log.\<close>

definition insertedAt :: "(nat \<times> string) list \<Rightarrow> nat \<Rightarrow> string" where
  "insertedAt queued k = concat (map snd (filter (\<lambda>entry. fst entry = k) queued))"

text \<open>
  Modelled from the spec: the content after the commit, every queued text put before the
  character of the original that stands at its offset (spec 4.6).
\<close>

definition applyInsertions :: "string \<Rightarrow> (nat \<times> string) list \<Rightarrow> string" where
  "applyInsertions content queued =
     concat (map (\<lambda>k. insertedAt queued k @ take 1 (drop k content)) [0 ..< Suc (length content)])"

text \<open>Modelled from the spec: \<^verbatim>\<open>commitUpdate\<close> writes the new content of the file to the tree.\<close>

definition commitUpdate :: "tree \<Rightarrow> update_recorder \<Rightarrow> tree" where
  "commitUpdate tree recorder =
     tree(recorder_path recorder \<mapsto> applyInsertions (original recorder) (insertions recorder))"

subsection \<open>addDirectiveToAppComponent\<close>

text \<open>Lines 98 to 102: every change is an \<^verbatim>\<open>InsertChange\<close>, so every one is recorded.\<close>

fun recordChanges :: "insert_change list \<Rightarrow> update_recorder \<Rightarrow> error + update_recorder" where
  "recordChanges [] recorder = Inr recorder"
| "recordChanges (change # changes) recorder =
     andThen (insertLeft recorder (pos change) (toAdd change)) (recordChanges changes)"

text \<open>
  Lines 87 to 107. The two string arguments are written between single quotes in the source,
  so they are these very characters, dollar sign and braces included. A rule that throws
  leaves the tree as it was when it threw.
\<close>

definition addDirectiveToAppComponent :: "'src collaborators \<Rightarrow> string \<Rightarrow> rule" where
  "addDirectiveToAppComponent c appComponentPath tree =
     (case addDirectiveToComponentDecorator c tree
             ''${strings.classify(options.name)}Directive''
             ''./${strings.dasherize(options.name)}.directive''
             appComponentPath of
        Inl e \<Rightarrow> (Some e, tree)
      | Inr changes \<Rightarrow>
          (case andThen (beginUpdate tree appComponentPath) (recordChanges changes) of
             Inl e \<Rightarrow> (Some e, tree)
           | Inr recorder \<Rightarrow> (None, commitUpdate tree recorder)))"

subsection \<open>The schematic\<close>

text \<open>
  Modelled from the spec: \<^verbatim>\<open>chain\<close> is imported from \<^verbatim>\<open>@angular-devkit/schematics\<close>.
  By the spec (4.7) the steps run in sequence on the same tree and the first failure aborts
  the whole operation.
\<close>

fun chain :: "rule list \<Rightarrow> rule" where
  "chain [] tree = (None, tree)"
| "chain (r # rs) tree =
     (case r tree of
        (Some e, tree') \<Rightarrow> (Some e, tree')
      | (None, tree') \<Rightarrow> chain rs tree')"

text \<open>Line 128, the right-hand side; \<open>projectPrefix\<close> is \<^verbatim>\<open>project.prefix\<close>.\<close>

definition selectorOrBuilt :: "'src collaborators \<Rightarrow> options \<Rightarrow> string option \<Rightarrow> string" where
  "selectorOrBuilt c options projectPrefix =
     (if truthy (selector options) then interpolate (selector options)
      else buildSelector c options (if truthy projectPrefix then interpolate projectPrefix else []))"

text \<open>
  Lines 112 to 128: the options as they stand when the selector is validated, with the parsed
  path.
\<close>

definition resolveOptions :: "'src collaborators \<Rightarrow> options \<Rightarrow> tree \<Rightarrow> error + options \<times> location" where
  "resolveOptions c options host =
     andThen (getWorkspace c host) (\<lambda>projects.
       case (case project options of None \<Rightarrow> None | Some key \<Rightarrow> projects key) of
         None \<Rightarrow>
           Inl (SchematicsException
             (''Project '' @ [CHR 0x22] @ interpolate (project options) @ [CHR 0x22] @ '' does not exist.''))
       | Some project_def \<Rightarrow>
           (let defaulted = (case path options of None \<Rightarrow> buildDefaultPath c project_def | Some p \<Rightarrow> p);
                options1 = options\<lparr>path := Some defaulted\<rparr>
            in andThen (findModuleFromOptions c host options1) (\<lambda>found.
                 let options2 = options1\<lparr>module := found\<rparr>;
                     parsedPath = parseName c defaulted (name options2);
                     options3 = options2\<lparr>name := parsed_name parsedPath, path := Some (parsed_path parsedPath)\<rparr>;
                     options4 = options3\<lparr>selector := Some (selectorOrBuilt c options3 (project_prefix project_def))\<rparr>
                 in Inr (options4, parsedPath))))"

text \<open>Lines 142 to 150: the three rules of the chain, the path of line 148 already computed.\<close>

definition directiveRules :: "'src collaborators \<Rightarrow> options \<Rightarrow> location \<Rightarrow> string \<Rightarrow> rule list" where
  "directiveRules c options parsedPath appComponentPath =
     [addDeclarationToNgModule c options,
      addDirectiveToAppComponent c appComponentPath,
      mergeWithTemplates c options (parsed_path parsedPath)]"

text \<open>
  Lines 110 to 152, the default export. \<^verbatim>\<open>getAppModulePath\<close> is an argument of a call
  inside the array literal of line 142, so it runs while the list is built, before any of
  the three rules does.
\<close>

definition directive :: "'src collaborators \<Rightarrow> options \<Rightarrow> rule" where
  "directive c options host =
     (case resolveOptions c options host of
        Inl e \<Rightarrow> (Some e, host)
      | Inr (options', parsedPath) \<Rightarrow>
          (case validateHtmlSelector c (interpolate (selector options')) of
             Some e \<Rightarrow> (Some e, host)
           | None \<Rightarrow>
               (case getAppModulePath c host (module options') of
                  Inl e \<Rightarrow> (Some e, host)
                | Inr appComponentPath \<Rightarrow>
                    chain (directiveRules c options' parsedPath appComponentPath) host)))"

subsection \<open>A sample workspace\<close>

text \<open>
  One project, \<^verbatim>\<open>demo\<close>, with the prefix \<^verbatim>\<open>app\<close>, and five versions of its component
  file. In the first one the only element of the array, \<^verbatim>\<open>Bar\<close>, starts at offset 66 and
  ends at offset 69, where the closing bracket stands; in the last one, which declares three
  components, it starts at offset 99 and ends at offset 102.
\<close>

definition componentFile :: string where
  "componentFile = ''/src/app/app.component.ts''"

definition componentWithImports :: string where
  "componentWithImports =
     ''import { Component } from '@angular/core'; @Component({ imports: [Bar] }) export class AppComponent {}''"

definition componentWithoutImports :: string where
  "componentWithoutImports =
     ''import { Component } from '@angular/core'; @Component({ selector: 'app-root' }) export class AppComponent {}''"

definition componentWithImportsReference :: string where
  "componentWithImportsReference =
     ''import { Component } from '@angular/core'; @Component({ imports: SHARED }) export class AppComponent {}''"

definition componentWithEmptyMetadata :: string where
  "componentWithEmptyMetadata =
     ''import { Component } from '@angular/core'; @Component({}) export class AppComponent {}''"

definition threeComponents :: string where
  "threeComponents =
     ''import { Component } from '@angular/core'; @Component({}) export class A {} @Component({ imports: [Bar] }) export class B {} @Component({ selector: 'app-c' }) export class C {}''"

definition metadataWithImports :: node where
  "metadataWithImports =
     ObjectLiteralExpression
       [PropertyAssignment (Identifier ''imports'') (ArrayLiteralExpression [Identifier ''Bar''] 66 69)]"

definition metadataWithoutImports :: node where
  "metadataWithoutImports =
     ObjectLiteralExpression [PropertyAssignment (Identifier ''selector'') (StringLiteral ''app-root'')]"

definition metadataWithImportsReference :: node where
  "metadataWithImportsReference =
     ObjectLiteralExpression [PropertyAssignment (Identifier ''imports'') (Identifier ''SHARED'')]"

definition metadataOfB :: node where
  "metadataOfB =
     ObjectLiteralExpression
       [PropertyAssignment (Identifier ''imports'') (ArrayLiteralExpression [Identifier ''Bar''] 99 102)]"

definition metadataOfC :: node where
  "metadataOfC =
     ObjectLiteralExpression [PropertyAssignment (Identifier ''selector'') (StringLiteral ''app-c'')]"

text \<open>
  What the collaborators answer on this workspace. The parser's result stands for the text it
  was given; for \<^verbatim>\<open>Component\<close> of \<^verbatim>\<open>@angular/core\<close> the locator answers with the object
  literal that the decorator of that text carries. The selector validation accepts a selector
  that starts with a letter.
\<close>

definition sampleMetadata :: "string \<Rightarrow> string \<Rightarrow> string \<Rightarrow> node list" where
  "sampleMetadata source identifier moduleName =
     (if identifier = ''Component'' \<and> moduleName = ''@angular/core'' then
        (if source = componentWithImports then [metadataWithImports]
         else if source = componentWithoutImports then [metadataWithoutImports]
         else if source = componentWithImportsReference then [metadataWithImportsReference]
         else if source = componentWithEmptyMetadata then [ObjectLiteralExpression []]
         else if source = threeComponents then [ObjectLiteralExpression [], metadataOfB, metadataOfC]
         else [])
      else [])"

definition sampleValidation :: "string \<Rightarrow> error option" where
  "sampleValidation sel =
     (case sel of
        [] \<Rightarrow> Some (SchematicsException (''Selector ('' @ sel @ '') is invalid.''))
      | ch # rest \<Rightarrow>
          if ch \<in> set ''abcdefghijklmnopqrstuvwxyzABCDEFGHIJKLMNOPQRSTUVWXYZ'' then None
          else Some (SchematicsException (''Selector ('' @ sel @ '') is invalid.'')))"

definition sample :: "string collaborators" where
  "sample =
     \<lparr>getWorkspace = (\<lambda>host. Inr [''demo'' \<mapsto> \<lparr>project_prefix = Some ''app''\<rparr>]),
      buildDefaultPath = (\<lambda>project_def. ''/src/app''),
      findModuleFromOptions = (\<lambda>host options. Inr (Some ''/src/app/app.module.ts'')),
      parseName = (\<lambda>dir base. \<lparr>parsed_name = base, parsed_path = dir\<rparr>),
      validateHtmlSelector = sampleValidation,
      camelize = strings_camelize,
      createSourceFile = (\<lambda>fileName sourceText. sourceText),
      getDecoratorMetadata = sampleMetadata,
      getAppModulePath = (\<lambda>host modulePath. Inr componentFile),
      addDeclarationToNgModule = (\<lambda>options tree. (None, tree)),
      mergeWithTemplates = (\<lambda>options dir tree.
        (None, tree(dir @ ''/'' @ name options @ ''.directive.ts'' \<mapsto>
                      ''selector: '' @ interpolate (selector options))))\<rparr>"

definition fooOptions :: options where
  "fooOptions =
     \<lparr>name = ''foo'', prefix = None, selector = None, project = Some ''demo'', path = None,
      module = None, skipTests = False, flat = True\<rparr>"

section \<open>What the decorator edit does\<close>

subsection \<open>Line 64\<close>

text \<open>
  The node that \<^verbatim>\<open>find\<close> returns is a syntax node, so its element \<^verbatim>\<open>0\<close> is
  \<^verbatim>\<open>undefined\<close> and reading \<^verbatim>\<open>arguments\<close> of it throws.
\<close>

lemma firstArgumentOfFirst_node: "firstArgumentOfFirst (NodeVal n) = Inl TypeError"
  by (simp add: firstArgumentOfFirst_def andThen_def)

text \<open>
  Hence the three outcomes of the function, whatever the parser and the locator answer: the
  file is missing, no candidate passes the predicate of line 56, or line 64 throws.
\<close>

lemma decorator_outcome:
  "addDirectiveToComponentDecorator c tree classifiedName directivePath componentPath =
     (case tree componentPath of
        None \<Rightarrow> Inl (SchematicsException (''Component file '' @ componentPath @ '' not found.''))
      | Some sourceText \<Rightarrow>
          (case locateMetadataNode c (createSourceFile c componentPath sourceText) of
             None \<Rightarrow>
               Inl (SchematicsException (''Decorator @Component not found in '' @ componentPath @ ''.''))
           | Some metadataNode \<Rightarrow> Inl TypeError))"
  by (simp add: addDirectiveToComponentDecorator_def firstArgumentOfFirst_node andThen_def
           split: option.splits)

lemma decorator_never_returns:
  "addDirectiveToComponentDecorator c tree classifiedName directivePath componentPath \<noteq> Inr changes"
  by (simp add: decorator_outcome split: option.splits)

lemma pipeline_rethrows:
  "addDirectiveToComponentDecorator c tree
       ''${strings.classify(options.name)}Directive''
       ''./${strings.dasherize(options.name)}.directive'' appComponentPath = Inl e \<Longrightarrow>
   addDirectiveToAppComponent c appComponentPath tree = (Some e, tree)"
  by (simp add: addDirectiveToAppComponent_def)

lemma pipeline_never_edits:
  "snd (addDirectiveToAppComponent c appComponentPath tree) = tree"
  by (cases "addDirectiveToComponentDecorator c tree
       ''${strings.classify(options.name)}Directive''
       ''./${strings.dasherize(options.name)}.directive'' appComponentPath")
     (simp_all add: addDirectiveToAppComponent_def decorator_never_returns)

lemma pipeline_always_throws:
  "fst (addDirectiveToAppComponent c appComponentPath tree) \<noteq> None"
  by (cases "addDirectiveToComponentDecorator c tree
       ''${strings.classify(options.name)}Directive''
       ''./${strings.dasherize(options.name)}.directive'' appComponentPath")
     (simp_all add: addDirectiveToAppComponent_def decorator_never_returns)

lemma find_none_iff_no_candidate:
  "(find P xs = None) = (\<forall>x \<in> set xs. \<not> P x)"
  by (induction xs) simp_all

lemma find_first_viable:
  "\<forall>x \<in> set before. \<not> P x \<Longrightarrow> P site \<Longrightarrow> find P (before @ site # after) = Some site"
  by (induction before) simp_all

subsection \<open>The sample workspace\<close>

lemma sample_sources:
  "createSourceFile sample fileName sourceText = sourceText"
  "getDecoratorMetadata sample = sampleMetadata"
  by (simp_all add: sample_def)

lemma distinct_texts:
  "componentWithoutImports \<noteq> componentWithImports"
  "componentWithImportsReference \<noteq> componentWithImports"
  "componentWithImportsReference \<noteq> componentWithoutImports"
  "componentWithEmptyMetadata \<noteq> componentWithImports"
  "componentWithEmptyMetadata \<noteq> componentWithoutImports"
  "componentWithEmptyMetadata \<noteq> componentWithImportsReference"
  "threeComponents \<noteq> componentWithImports"
  "threeComponents \<noteq> componentWithoutImports"
  "threeComponents \<noteq> componentWithImportsReference"
  "threeComponents \<noteq> componentWithEmptyMetadata"
  by (simp_all add: componentWithImports_def componentWithoutImports_def
        componentWithImportsReference_def componentWithEmptyMetadata_def threeComponents_def)

lemma locate_withImports:
  "locateMetadataNode sample componentWithImports = Some metadataWithImports"
  by (simp add: locateMetadataNode_def sample_sources sampleMetadata_def metadataWithImports_def)

lemma locate_withoutImports:
  "locateMetadataNode sample componentWithoutImports = Some metadataWithoutImports"
  by (simp add: locateMetadataNode_def sample_sources sampleMetadata_def distinct_texts
        metadataWithoutImports_def)

lemma locate_withImportsReference:
  "locateMetadataNode sample componentWithImportsReference = Some metadataWithImportsReference"
  by (simp add: locateMetadataNode_def sample_sources sampleMetadata_def distinct_texts
        metadataWithImportsReference_def)

lemma candidates_withEmptyMetadata:
  "getDecoratorMetadata sample (createSourceFile sample componentFile componentWithEmptyMetadata)
     ''Component'' ''@angular/core'' = [ObjectLiteralExpression []]"
  by (simp add: sample_sources sampleMetadata_def distinct_texts)

lemma candidates_threeComponents:
  "getDecoratorMetadata sample (createSourceFile sample componentFile threeComponents)
     ''Component'' ''@angular/core'' = [ObjectLiteralExpression [], metadataOfB, metadataOfC]"
  by (simp add: sample_sources sampleMetadata_def distinct_texts)

lemma camelize_samples:
  "strings_camelize ''app-foo'' = ''appFoo''"
  "strings_camelize ''my-foo'' = ''myFoo''"
  "strings_camelize ''foo'' = ''foo''"
  by (simp_all add: strings_camelize_def isSeparator_def toUpperCase_def toLowerCase_def)

lemma sample_camelize: "camelize sample = strings_camelize"
  by (simp add: sample_def)

subsection \<open>The edit pipeline on a component with an imports array\<close>

text \<open>
  C1: on the sample component whose decorator carries \<^verbatim>\<open>{ imports: [Bar] }\<close>, an array of
  one element, the edit pipeline does not produce a file with two elements: line 64 throws a
  TypeError and the tree is left as it was. On every tree, whatever the parser and the locator
  answer, the pipeline ends with an error and writes nothing.
\<close>

theorem pipeline_on_imports_array:
  "addDirectiveToAppComponent sample componentFile [componentFile \<mapsto> componentWithImports] =
     (Some TypeError, [componentFile \<mapsto> componentWithImports])
   \<and> fst (addDirectiveToAppComponent c appComponentPath tree) \<noteq> None
   \<and> snd (addDirectiveToAppComponent c appComponentPath tree) = tree"
proof -
  have "addDirectiveToAppComponent sample componentFile [componentFile \<mapsto> componentWithImports] =
     (Some TypeError, [componentFile \<mapsto> componentWithImports])"
    by (rule pipeline_rethrows) (simp add: decorator_outcome sample_sources locate_withImports)
  then show ?thesis
    by (simp add: pipeline_always_throws pipeline_never_edits)
qed

text \<open>
  C2: on the sample components whose decorator has no \<^verbatim>\<open>imports\<close> property, or has one that
  is not an array literal, the function does not reach the exception of line 80: line 64
  throws a TypeError before. On no tree at all is the exception of line 80 the outcome.
\<close>

theorem decorator_without_imports:
  "addDirectiveToComponentDecorator sample [componentFile \<mapsto> componentWithoutImports]
      ''FooDirective'' ''./foo.directive'' componentFile = Inl TypeError
   \<and> addDirectiveToComponentDecorator sample [componentFile \<mapsto> componentWithImportsReference]
      ''FooDirective'' ''./foo.directive'' componentFile = Inl TypeError
   \<and> addDirectiveToComponentDecorator c tree classifiedName directivePath componentPath \<noteq>
      Inl (SchematicsException
        (''Property 'imports' not found in the decorator @Component in '' @ componentPath @ ''.''))"
proof -
  have absent: "addDirectiveToComponentDecorator sample [componentFile \<mapsto> componentWithoutImports]
      ''FooDirective'' ''./foo.directive'' componentFile = Inl TypeError"
    by (simp add: decorator_outcome sample_sources locate_withoutImports)
  have reference: "addDirectiveToComponentDecorator sample [componentFile \<mapsto> componentWithImportsReference]
      ''FooDirective'' ''./foo.directive'' componentFile = Inl TypeError"
    by (simp add: decorator_outcome sample_sources locate_withImportsReference)
  have never: "addDirectiveToComponentDecorator c tree classifiedName directivePath componentPath \<noteq>
      Inl (SchematicsException
        (''Property 'imports' not found in the decorator @Component in '' @ componentPath @ ''.''))"
    by (simp add: decorator_outcome split: option.splits)
  from absent reference never show ?thesis
    by blast
qed

text \<open>
  C6: on the sample component with \<^verbatim>\<open>imports: [Bar]\<close>, lines 70 to 81 would find the end
  of the element list, offset 69, just before the closing bracket; the function computes no
  offset and no text, since line 64 throws a TypeError before. On no tree at all does the
  function return a change.
\<close>

theorem decorator_on_imports_array:
  "addDirectiveToComponentDecorator sample [componentFile \<mapsto> componentWithImports]
      ''FooDirective'' ''./foo.directive'' componentFile = Inl TypeError
   \<and> andThen (getProperties metadataWithImports)
        (\<lambda>properties. insertPositionOf componentFile (findImportsProperty properties)) = Inr 69
   \<and> take 1 (drop 69 componentWithImports) = '']''
   \<and> addDirectiveToComponentDecorator c tree classifiedName directivePath componentPath \<noteq> Inr changes"
proof -
  have thrown: "addDirectiveToComponentDecorator sample [componentFile \<mapsto> componentWithImports]
      ''FooDirective'' ''./foo.directive'' componentFile = Inl TypeError"
    by (simp add: decorator_outcome sample_sources locate_withImports)
  have intended: "andThen (getProperties metadataWithImports)
        (\<lambda>properties. insertPositionOf componentFile (findImportsProperty properties)) = Inr 69"
    by (simp add: metadataWithImports_def andThen_def findImportsProperty_def)
  have bracket: "take 1 (drop 69 componentWithImports) = '']''"
    by (simp add: componentWithImports_def)
  from thrown intended bracket decorator_never_returns show ?thesis
    by blast
qed

text \<open>
  C8: running the edit pipeline twice on the sample component with \<^verbatim>\<open>imports: [Bar]\<close>
  inserts nothing, neither the first time nor the second: both runs end with the TypeError of
  line 64 and the file keeps its text. On every tree the second run does what the first did.
\<close>

theorem pipeline_twice:
  "addDirectiveToAppComponent sample componentFile
     (snd (addDirectiveToAppComponent sample componentFile [componentFile \<mapsto> componentWithImports])) =
     (Some TypeError, [componentFile \<mapsto> componentWithImports])
   \<and> addDirectiveToAppComponent c appComponentPath
        (snd (addDirectiveToAppComponent c appComponentPath tree)) =
      addDirectiveToAppComponent c appComponentPath tree"
proof -
  have "addDirectiveToAppComponent sample componentFile [componentFile \<mapsto> componentWithImports] =
     (Some TypeError, [componentFile \<mapsto> componentWithImports])"
    by (rule pipeline_rethrows) (simp add: decorator_outcome sample_sources locate_withImports)
  then show ?thesis
    by (simp add: pipeline_never_edits)
qed

subsection \<open>Declarations that do not qualify\<close>

text \<open>
  C3, as stated: a declaration is found and its argument is the empty object literal, yet the
  error is not the one of line 66.
\<close>

theorem empty_metadata_is_not_invalid_content:
  "getDecoratorMetadata sample (createSourceFile sample componentFile componentWithEmptyMetadata)
      ''Component'' ''@angular/core'' = [ObjectLiteralExpression []]
   \<and> addDirectiveToComponentDecorator sample [componentFile \<mapsto> componentWithEmptyMetadata]
      ''FooDirective'' ''./foo.directive'' componentFile
     \<noteq> Inl (SchematicsException
           ''Invalid @Component decorator content found in file /src/app/app.component.ts.'')"
proof -
  have located: "locateMetadataNode sample
      (createSourceFile sample componentFile componentWithEmptyMetadata) = None"
    by (simp add: locateMetadataNode_def candidates_withEmptyMetadata)
  have "addDirectiveToComponentDecorator sample [componentFile \<mapsto> componentWithEmptyMetadata]
      ''FooDirective'' ''./foo.directive'' componentFile =
      Inl (SchematicsException (''Decorator @Component not found in '' @ componentFile @ ''.''))"
    by (simp add: decorator_outcome located)
  then have "addDirectiveToComponentDecorator sample [componentFile \<mapsto> componentWithEmptyMetadata]
      ''FooDirective'' ''./foo.directive'' componentFile
     \<noteq> Inl (SchematicsException
           ''Invalid @Component decorator content found in file /src/app/app.component.ts.'')"
    by simp
  with candidates_withEmptyMetadata show ?thesis
    by blast
qed

text \<open>
  C3, amended: when the locator finds declarations and none of them carries a non-empty object
  literal, the function fails with the exception of line 60, which names the file.
\<close>

theorem no_viable_declaration_is_not_found:
  assumes "tree componentPath = Some sourceText"
    and "getDecoratorMetadata c (createSourceFile c componentPath sourceText)
           ''Component'' ''@angular/core'' = candidates"
    and "candidates \<noteq> []"
    and "\<forall>n \<in> set candidates. \<not> isNonEmptyObjectLiteral n"
  shows "addDirectiveToComponentDecorator c tree classifiedName directivePath componentPath =
           Inl (SchematicsException (''Decorator @Component not found in '' @ componentPath @ ''.''))"
proof -
  have "locateMetadataNode c (createSourceFile c componentPath sourceText) = None"
    using assms(2,4) by (simp add: locateMetadataNode_def find_none_iff_no_candidate)
  with assms(1) show ?thesis
    by (simp add: decorator_outcome)
qed

theorem no_viable_declaration_is_not_found_witness:
  "[componentFile \<mapsto> componentWithEmptyMetadata] componentFile = Some componentWithEmptyMetadata
   \<and> [ObjectLiteralExpression []] \<noteq> []
   \<and> \<not> isNonEmptyObjectLiteral (ObjectLiteralExpression [])
   \<and> addDirectiveToComponentDecorator sample [componentFile \<mapsto> componentWithEmptyMetadata]
        ''FooDirective'' ''./foo.directive'' componentFile =
      Inl (SchematicsException ''Decorator @Component not found in /src/app/app.component.ts.'')"
proof -
  have present: "[componentFile \<mapsto> componentWithEmptyMetadata] componentFile = Some componentWithEmptyMetadata"
    by simp
  have some: "[ObjectLiteralExpression []] \<noteq> []"
    by simp
  have none: "\<forall>n \<in> set [ObjectLiteralExpression []]. \<not> isNonEmptyObjectLiteral n"
    by simp
  have "addDirectiveToComponentDecorator sample [componentFile \<mapsto> componentWithEmptyMetadata]
        ''FooDirective'' ''./foo.directive'' componentFile =
      Inl (SchematicsException (''Decorator @Component not found in '' @ componentFile @ ''.''))"
    using present candidates_withEmptyMetadata some none
    by (rule no_viable_declaration_is_not_found)
  with present some show ?thesis
    by (simp add: componentFile_def)
qed

text \<open>
  C7: among the candidates of the locator, in their order, the first that is a non-empty object
  literal is the one selected, whatever comes after it; and when no candidate is one, or there
  is no candidate at all, nothing is selected and the function fails with the exception of
  line 60.
\<close>

theorem first_viable_declaration_wins:
  "(getDecoratorMetadata c source ''Component'' ''@angular/core'' = before @ site # after
      \<and> (\<forall>n \<in> set before. \<not> isNonEmptyObjectLiteral n) \<and> isNonEmptyObjectLiteral site
     \<longrightarrow> locateMetadataNode c source = Some site)
   \<and> ((\<forall>n \<in> set (getDecoratorMetadata c source ''Component'' ''@angular/core'').
          \<not> isNonEmptyObjectLiteral n)
        \<and> tree componentPath = Some sourceText \<and> createSourceFile c componentPath sourceText = source
     \<longrightarrow> locateMetadataNode c source = None
        \<and> addDirectiveToComponentDecorator c tree classifiedName directivePath componentPath =
            Inl (SchematicsException (''Decorator @Component not found in '' @ componentPath @ ''.'')))"
proof (intro conjI impI)
  assume "getDecoratorMetadata c source ''Component'' ''@angular/core'' = before @ site # after
      \<and> (\<forall>n \<in> set before. \<not> isNonEmptyObjectLiteral n) \<and> isNonEmptyObjectLiteral site"
  then show "locateMetadataNode c source = Some site"
    by (simp add: locateMetadataNode_def find_first_viable)
next
  assume none: "(\<forall>n \<in> set (getDecoratorMetadata c source ''Component'' ''@angular/core'').
          \<not> isNonEmptyObjectLiteral n)
        \<and> tree componentPath = Some sourceText \<and> createSourceFile c componentPath sourceText = source"
  then have unselected: "locateMetadataNode c source = None"
    by (simp add: locateMetadataNode_def find_none_iff_no_candidate)
  from none have present: "tree componentPath = Some sourceText"
    and parsed: "createSourceFile c componentPath sourceText = source"
    by simp_all
  show "locateMetadataNode c source = None"
    by (rule unselected)
  show "addDirectiveToComponentDecorator c tree classifiedName directivePath componentPath =
      Inl (SchematicsException (''Decorator @Component not found in '' @ componentPath @ ''.''))"
    by (simp add: decorator_outcome present parsed unselected)
qed

theorem first_viable_declaration_wins_witness:
  "locateMetadataNode sample threeComponents = Some metadataOfB
   \<and> locateMetadataNode sample componentWithEmptyMetadata = None
   \<and> addDirectiveToComponentDecorator sample [componentFile \<mapsto> componentWithEmptyMetadata]
        ''FooDirective'' ''./foo.directive'' componentFile =
      Inl (SchematicsException ''Decorator @Component not found in /src/app/app.component.ts.'')"
proof -
  have three: "getDecoratorMetadata sample threeComponents ''Component'' ''@angular/core'' =
      [ObjectLiteralExpression []] @ metadataOfB # [metadataOfC]"
    using candidates_threeComponents by (simp add: sample_sources)
  have before: "\<forall>n \<in> set [ObjectLiteralExpression []]. \<not> isNonEmptyObjectLiteral n"
    by simp
  have site: "isNonEmptyObjectLiteral metadataOfB"
    by (simp add: metadataOfB_def)
  have empty: "\<forall>n \<in> set (getDecoratorMetadata sample componentWithEmptyMetadata
      ''Component'' ''@angular/core''). \<not> isNonEmptyObjectLiteral n"
    using candidates_withEmptyMetadata by (simp add: sample_sources)
  have present: "[componentFile \<mapsto> componentWithEmptyMetadata] componentFile = Some componentWithEmptyMetadata"
    by simp
  have parsed: "createSourceFile sample componentFile componentWithEmptyMetadata = componentWithEmptyMetadata"
    by (simp add: sample_sources)
  show ?thesis
    using first_viable_declaration_wins [of sample threeComponents "[ObjectLiteralExpression []]"
        metadataOfB "[metadataOfC]"]
      first_viable_declaration_wins [of sample componentWithEmptyMetadata _ _ _
        "[componentFile \<mapsto> componentWithEmptyMetadata]" componentFile componentWithEmptyMetadata
        "''FooDirective''" "''./foo.directive''"]
      three before site empty present parsed
    by (simp add: componentFile_def)
qed

section \<open>The selector\<close>

text \<open>
  C5: buildSelector returns the camel-cased form of the prefix joined to the name with a dash
  when a non-empty prefix is given, of the project prefix joined to the name when no prefix was
  specified at all and the project prefix is not empty, and of the bare name otherwise, an
  explicitly empty prefix included. A specified prefix keeps the project prefix out: the
  result is then the same for every project prefix.
\<close>

theorem buildSelector_rule:
  "(prefix options = Some p \<and> p \<noteq> []
      \<longrightarrow> buildSelector c options projectPrefix = camelize c (p @ ''-'' @ name options))
   \<and> (prefix options = None \<and> projectPrefix \<noteq> []
      \<longrightarrow> buildSelector c options projectPrefix = camelize c (projectPrefix @ ''-'' @ name options))
   \<and> (prefix options = Some [] \<or> prefix options = None \<and> projectPrefix = []
      \<longrightarrow> buildSelector c options projectPrefix = camelize c (name options))
   \<and> (prefix options \<noteq> None
      \<longrightarrow> buildSelector c options projectPrefix = buildSelector c options otherPrefix)"
  by (cases "prefix options") (auto simp add: buildSelector_def)

theorem buildSelector_rule_witness:
  "buildSelector sample (fooOptions\<lparr>prefix := Some ''my''\<rparr>) ''app'' = ''myFoo''
   \<and> buildSelector sample fooOptions ''app'' = ''appFoo''
   \<and> buildSelector sample (fooOptions\<lparr>prefix := Some []\<rparr>) ''app'' = ''foo''
   \<and> buildSelector sample fooOptions [] = ''foo''
   \<and> buildSelector sample (fooOptions\<lparr>prefix := Some ''my''\<rparr>) ''lib'' = ''myFoo''"
proof -
  have given: "prefix (fooOptions\<lparr>prefix := Some ''my''\<rparr>) = Some ''my'' \<and> ''my'' \<noteq> []"
    by simp
  have unspecified: "prefix fooOptions = None"
    by (simp add: fooOptions_def)
  have emptied: "prefix (fooOptions\<lparr>prefix := Some []\<rparr>) = Some []"
    by simp
  have named: "name fooOptions = ''foo''"
    by (simp add: fooOptions_def)
  show ?thesis
    using buildSelector_rule [of "fooOptions\<lparr>prefix := Some ''my''\<rparr>" "''my''" sample "''app''" "''lib''"]
      buildSelector_rule [of fooOptions "''my''" sample "''app''" "''lib''"]
      buildSelector_rule [of "fooOptions\<lparr>prefix := Some []\<rparr>" "''my''" sample "''app''" "''lib''"]
      buildSelector_rule [of fooOptions "''my''" sample "[]" "''lib''"]
      given unspecified emptied named
    by (auto simp add: sample_camelize camelize_samples)
qed

text \<open>
  C4, as stated: with the name \<^verbatim>\<open>foo\<close>, no prefix and the project prefix \<^verbatim>\<open>app\<close>, the
  selector that buildSelector returns is not \<^verbatim>\<open>app-foo\<close>.
\<close>

theorem foo_selector_is_not_dashed:
  "buildSelector sample fooOptions ''app'' \<noteq> ''app-foo''"
  by (simp add: buildSelector_def fooOptions_def sample_camelize camelize_samples)

text \<open>
  C4, amended: with the name \<^verbatim>\<open>foo\<close>, no prefix, no selector and the project prefix
  \<^verbatim>\<open>app\<close>, the selector of line 128, the one that is validated and handed to the
  templates, is the camel form \<^verbatim>\<open>appFoo\<close>.
\<close>

theorem foo_selector_is_camel_case:
  assumes "camelize c = strings_camelize"
    and "name options = ''foo''"
    and "prefix options = None"
    and "\<not> truthy (selector options)"
  shows "selectorOrBuilt c options (Some ''app'') = ''appFoo''"
  using assms by (simp add: selectorOrBuilt_def buildSelector_def camelize_samples)

theorem foo_selector_is_camel_case_witness:
  "camelize sample = strings_camelize \<and> name fooOptions = ''foo'' \<and> prefix fooOptions = None
   \<and> \<not> truthy (selector fooOptions)
   \<and> selectorOrBuilt sample fooOptions (Some ''app'') = ''appFoo''"
proof -
  have named: "name fooOptions = ''foo''"
    and unspecified: "prefix fooOptions = None"
    and unselected: "\<not> truthy (selector fooOptions)"
    by (simp_all add: fooOptions_def)
  from sample_camelize named unspecified unselected
    foo_selector_is_camel_case [OF sample_camelize named unspecified unselected]
  show ?thesis
    by blast
qed

text \<open>
  C10: a supplied, non-empty selector is the selector of the resolved options as it stands,
  and replacing the case conversion that buildSelector relies on changes nothing then; without
  one, the selector is what buildSelector returns. In both cases, when the validation rejects
  the selector of the resolved options, the schematic ends with that error on the tree it was
  given: no rule of the chain has run.
\<close>

theorem selector_is_validated_first:
  assumes "resolveOptions c options host = Inr (options', parsedPath)"
  shows "(truthy (selector options)
            \<longrightarrow> selector options' = selector options
              \<and> resolveOptions (c\<lparr>camelize := other\<rparr>) options host = Inr (options', parsedPath))
       \<and> (\<not> truthy (selector options)
            \<longrightarrow> (\<exists>projectPrefix. selector options' = Some (buildSelector c options' projectPrefix)))
       \<and> (validateHtmlSelector c (interpolate (selector options')) = Some e
            \<longrightarrow> directive c options host = (Some e, host))"
proof (intro conjI impI)
  assume supplied: "truthy (selector options)"
  then obtain s where s: "selector options = Some s" "s \<noteq> []"
    by (cases "selector options") simp_all
  from assms s show "selector options' = selector options"
    by (auto simp add: resolveOptions_def andThen_def selectorOrBuilt_def Let_def
          split: sum.splits option.splits)
  from assms s show "resolveOptions (c\<lparr>camelize := other\<rparr>) options host = Inr (options', parsedPath)"
    by (auto simp add: resolveOptions_def andThen_def selectorOrBuilt_def Let_def
          split: sum.splits option.splits)
next
  assume "\<not> truthy (selector options)"
  with assms show "\<exists>projectPrefix. selector options' = Some (buildSelector c options' projectPrefix)"
    by (auto simp add: resolveOptions_def andThen_def selectorOrBuilt_def buildSelector_def Let_def
          split: sum.splits option.splits)
next
  assume "validateHtmlSelector c (interpolate (selector options')) = Some e"
  with assms show "directive c options host = (Some e, host)"
    by (simp add: directive_def)
qed

theorem selector_is_validated_first_witness:
  "resolveOptions sample (fooOptions\<lparr>selector := Some ''1x''\<rparr>) Map.empty =
      Inr (\<lparr>name = ''foo'', prefix = None, selector = Some ''1x'', project = Some ''demo'',
             path = Some ''/src/app'', module = Some ''/src/app/app.module.ts'',
             skipTests = False, flat = True\<rparr>,
           \<lparr>parsed_name = ''foo'', parsed_path = ''/src/app''\<rparr>)
   \<and> truthy (selector (fooOptions\<lparr>selector := Some ''1x''\<rparr>))
   \<and> validateHtmlSelector sample ''1x'' = Some (SchematicsException ''Selector (1x) is invalid.'')
   \<and> directive sample (fooOptions\<lparr>selector := Some ''1x''\<rparr>) Map.empty =
        (Some (SchematicsException ''Selector (1x) is invalid.''), Map.empty)
   \<and> resolveOptions (sample\<lparr>camelize := rev\<rparr>) (fooOptions\<lparr>selector := Some ''1x''\<rparr>) Map.empty =
        resolveOptions sample (fooOptions\<lparr>selector := Some ''1x''\<rparr>) Map.empty
   \<and> resolveOptions sample fooOptions Map.empty =
      Inr (\<lparr>name = ''foo'', prefix = None, selector = Some ''appFoo'', project = Some ''demo'',
             path = Some ''/src/app'', module = Some ''/src/app/app.module.ts'',
             skipTests = False, flat = True\<rparr>,
           \<lparr>parsed_name = ''foo'', parsed_path = ''/src/app''\<rparr>)
   \<and> \<not> truthy (selector fooOptions)
   \<and> (\<exists>projectPrefix. Some ''appFoo'' =
        Some (buildSelector sample
          \<lparr>name = ''foo'', prefix = None, selector = Some ''appFoo'', project = Some ''demo'',
             path = Some ''/src/app'', module = Some ''/src/app/app.module.ts'',
             skipTests = False, flat = True\<rparr> projectPrefix))"
proof -
  have supplied: "resolveOptions sample (fooOptions\<lparr>selector := Some ''1x''\<rparr>) Map.empty =
      Inr (\<lparr>name = ''foo'', prefix = None, selector = Some ''1x'', project = Some ''demo'',
             path = Some ''/src/app'', module = Some ''/src/app/app.module.ts'',
             skipTests = False, flat = True\<rparr>,
           \<lparr>parsed_name = ''foo'', parsed_path = ''/src/app''\<rparr>)"
    by (simp add: resolveOptions_def andThen_def selectorOrBuilt_def sample_def fooOptions_def Let_def)
  have built: "resolveOptions sample fooOptions Map.empty =
      Inr (\<lparr>name = ''foo'', prefix = None, selector = Some ''appFoo'', project = Some ''demo'',
             path = Some ''/src/app'', module = Some ''/src/app/app.module.ts'',
             skipTests = False, flat = True\<rparr>,
           \<lparr>parsed_name = ''foo'', parsed_path = ''/src/app''\<rparr>)"
    by (simp add: resolveOptions_def andThen_def selectorOrBuilt_def buildSelector_def sample_def
          fooOptions_def camelize_samples Let_def)
  have rejected: "validateHtmlSelector sample ''1x'' = Some (SchematicsException ''Selector (1x) is invalid.'')"
    by (simp add: sample_def sampleValidation_def)
  have given: "truthy (selector (fooOptions\<lparr>selector := Some ''1x''\<rparr>))"
    by simp
  have absent: "\<not> truthy (selector fooOptions)"
    by (simp add: fooOptions_def)
  show ?thesis
    using selector_is_validated_first [OF supplied, of rev "SchematicsException ''Selector (1x) is invalid.''"]
      selector_is_validated_first [OF built, of rev "SchematicsException ''Selector (1x) is invalid.''"]
      supplied built rejected given absent
    by simp
qed

subsection \<open>The rule that edits the component\<close>

text \<open>
  C9: with the name \<^verbatim>\<open>foo\<close> as with the name \<^verbatim>\<open>bar\<close>, the rule of the chain that edits
  the component inserts no text into the sample component with \<^verbatim>\<open>imports: [Bar]\<close>: it ends
  with the TypeError of line 64 and the file keeps its text. On every tree the list of the
  texts to insert (the \<^verbatim>\<open>toAdd\<close> of the changes) that the call of lines 89 to 94 yields is
  empty, so there is no inserted text to compare between two invocations.
\<close>

theorem component_edit_inserts_no_text:
  "(directiveRules sample fooOptions \<lparr>parsed_name = ''foo'', parsed_path = ''/src/app''\<rparr>
       componentFile ! 1) [componentFile \<mapsto> componentWithImports] =
     (Some TypeError, [componentFile \<mapsto> componentWithImports])
   \<and> (directiveRules sample (fooOptions\<lparr>name := ''bar''\<rparr>)
         \<lparr>parsed_name = ''bar'', parsed_path = ''/src/app''\<rparr>
       componentFile ! 1) [componentFile \<mapsto> componentWithImports] =
     (Some TypeError, [componentFile \<mapsto> componentWithImports])
   \<and> (case addDirectiveToComponentDecorator c tree
               ''${strings.classify(options.name)}Directive''
               ''./${strings.dasherize(options.name)}.directive''
               appComponentPath of
          Inl e \<Rightarrow> []
        | Inr changes \<Rightarrow> map toAdd changes) = []"
proof -
  have thrown: "addDirectiveToAppComponent sample componentFile [componentFile \<mapsto> componentWithImports] =
     (Some TypeError, [componentFile \<mapsto> componentWithImports])"
    by (rule pipeline_rethrows) (simp add: decorator_outcome sample_sources locate_withImports)
  have none: "(case addDirectiveToComponentDecorator c tree
               ''${strings.classify(options.name)}Directive''
               ''./${strings.dasherize(options.name)}.directive''
               appComponentPath of
          Inl e \<Rightarrow> []
        | Inr changes \<Rightarrow> map toAdd changes) = []"
    by (simp add: decorator_never_returns split: sum.splits)
  from thrown none show ?thesis
    by (simp add: directiveRules_def)
qed

end
